theory Spec2Isabelle
  imports Complex_Main "HOL-Library.Sublist"
begin

section \<open>Page-load instrumentation (UITelemetry/PageLoadInstrumentation.ts)\<close>

text \<open>
  The class \<^verbatim>\<open>PageLoadInstrumentation\<close> is embedded as a record of its
  fields together with the part of the browser and of the tracer that its methods act on.
  Every method is a function from the state before the call to the state after it.
  JavaScript numbers (time stamps, sizes) are the type \<open>number\<close>; the theorems below
  only use the additions and subtractions that the code itself performs.
\<close>

type_synonym number = real

subsection \<open>Strings\<close>

text \<open>
  Strings are ASCII byte strings. \<^verbatim>\<open>String.prototype.toUpperCase\<close> maps the
  letters a-z to A-Z and leaves every other character as it is;
  \<^verbatim>\<open>str.replace(/-/g, "_")\<close> replaces every occurrence of one character;
  \<^verbatim>\<open>split(sep)\<close> on a one-character separator and \<^verbatim>\<open>join(sep)\<close> are the
  library functions; \<^verbatim>\<open>a.includes(b)\<close> tests whether \<open>b\<close> occurs in \<open>a\<close> as a
  contiguous substring.
\<close>

definition lowerLetters :: string where
  "lowerLetters = ''abcdefghijklmnopqrstuvwxyz''"

definition upperLetters :: string where
  "upperLetters = ''ABCDEFGHIJKLMNOPQRSTUVWXYZ''"

definition toUpperCaseChar :: "char \<Rightarrow> char" where
  "toUpperCaseChar c =
     (case map_of (zip lowerLetters upperLetters) c of Some u \<Rightarrow> u | None \<Rightarrow> c)"

definition toUpperCase :: "string \<Rightarrow> string" where
  "toUpperCase str = map toUpperCaseChar str"

definition replaceAllChar :: "char \<Rightarrow> char \<Rightarrow> string \<Rightarrow> string" where
  "replaceAllChar a b str = map (\<lambda>c. if c = a then b else c) str"

fun splitChar :: "char \<Rightarrow> string \<Rightarrow> string list" where
  "splitChar sep [] = [[]]"
| "splitChar sep (c # cs) =
     (if c = sep then [] # splitChar sep cs
      else (case splitChar sep cs of
              [] \<Rightarrow> [[c]]
            | w # ws \<Rightarrow> (c # w) # ws))"

fun joinWith :: "string \<Rightarrow> string list \<Rightarrow> string" where
  "joinWith sep [] = []"
| "joinWith sep [w] = w"
| "joinWith sep (w # ws) = w @ sep @ joinWith sep ws"

fun stringIncludes :: "string \<Rightarrow> string \<Rightarrow> bool" where
  "stringIncludes [] sub = (sub = [])"
| "stringIncludes (c # cs) sub = (prefix sub (c # cs) \<or> stringIncludes cs sub)"

text \<open>\<^verbatim>\<open>kebabToScreamingSnakeCase\<close> (line 128).\<close>

definition kebabToScreamingSnakeCase :: "string \<Rightarrow> string" where
  "kebabToScreamingSnakeCase str = toUpperCase (replaceAllChar (CHR ''-'') (CHR ''_'') str)"

subsection \<open>DOM elements and \<^verbatim>\<open>getElementName\<close>\<close>

text \<open>
  An element with the properties that \<^verbatim>\<open>getElementName\<close> reads:
  \<^verbatim>\<open>tagName\<close>, \<^verbatim>\<open>id\<close>, \<^verbatim>\<open>className\<close>, the value of
  \<^verbatim>\<open>getAttribute("data-testid")\<close> (\<open>None\<close> is JavaScript's \<^verbatim>\<open>null\<close>) and
  \<^verbatim>\<open>parentElement\<close> (\<open>None\<close> at the top of the tree).
\<close>

datatype element =
  Element (tagName: string) (elementId: string) (className: string)
          (dataTestid: "string option") (parentElement: "element option")

text \<open>A template literal prints \<^verbatim>\<open>null\<close> as the four characters \<^verbatim>\<open>null\<close>.\<close>

definition templateNullable :: "string option \<Rightarrow> string" where
  "templateNullable v = (case v of None \<Rightarrow> ''null'' | Some s \<Rightarrow> s)"

text \<open>Lines 110-116: the label of one element, \<^verbatim>\<open>TAG#id.class1.class2:testId\<close>.\<close>

definition elementLabel :: "element \<Rightarrow> string" where
  "elementLabel el =
     (let elementTestId = dataTestid el;
          clsName = (if className el \<noteq> []
                     then ''.'' @ joinWith ''.'' (splitChar (CHR '' '') (className el))
                     else []);
          elId = (if elementId el \<noteq> [] then ''#'' @ elementId el else [])
      in tagName el @ elId @ clsName @ '':'' @ templateNullable elementTestId)"

text \<open>
  Lines 104-125. The recursion goes to the parent with \<open>depth + 1\<close> and stops when the
  element is absent or the depth exceeds 3; its termination is proved from the depth alone.
\<close>

function getElementName :: "element option \<Rightarrow> int \<Rightarrow> string" where
  "getElementName None depth = []"
| "getElementName (Some el) depth =
     (if depth > 3 then []
      else (let elementName = elementLabel el;
                parentElementName = getElementName (parentElement el) (depth + 1)
            in parentElementName @ '' > '' @ elementName))"
  by pat_completeness auto
termination
  by (relation "measure (\<lambda>(e, d). nat (4 - d))") auto

text \<open>The chain of an element and its ancestors, the element first.\<close>

fun ancestorChain :: "element \<Rightarrow> element list" where
  "ancestorChain (Element t i c d p) =
     Element t i c d p # (case p of None \<Rightarrow> [] | Some q \<Rightarrow> ancestorChain q)"

text \<open>An element with \<open>n\<close> ancestors above it, each tagged with its distance from the top.\<close>

fun nestedElement :: "nat \<Rightarrow> element" where
  "nestedElement 0 = Element ''E0'' [] [] None None"
| "nestedElement (Suc n) =
     Element (''E'' @ replicate (Suc n) (CHR ''x'')) [] [] None (Some (nestedElement n))"

subsection \<open>Performance entries\<close>

text \<open>
  The browser's performance entries, with the fields that the instrumentation reads.
  Field names carry a prefix for the entry type, since several entry types have fields of
  the same name. A field that the TypeScript declarations allow to be absent is an option.
\<close>

text \<open>\<^verbatim>\<open>PerformanceEntry\<close>, the type of a first-contentful-paint entry.\<close>

record paint_entry =
  paint_name :: string
  paint_entryType :: string
  paint_startTime :: number
  paint_duration :: number

text \<open>\<^verbatim>\<open>LargestContentfulPaint\<close>.\<close>

record lcp_entry =
  lcp_element :: "element option"
  lcp_entryType :: string
  lcp_loadTime :: number
  lcp_renderTime :: number
  lcp_startTime :: number
  lcp_url :: string

text \<open>
  \<^verbatim>\<open>PerformanceNavigationTiming | NavigationTimingPolyfillEntry\<close>: the six fields that
  the polyfill entry lacks are options.
\<close>

record navigation_entry =
  nav_connectEnd :: number
  nav_connectStart :: number
  nav_domainLookupEnd :: number
  nav_domainLookupStart :: number
  nav_domComplete :: number
  nav_domContentLoadedEventEnd :: number
  nav_domContentLoadedEventStart :: number
  nav_domInteractive :: number
  nav_entryType :: string
  nav_fetchStart :: number
  nav_loadEventEnd :: number
  nav_loadEventStart :: number
  nav_name :: string
  nav_redirectEnd :: number
  nav_redirectStart :: number
  nav_requestStart :: number
  nav_responseEnd :: number
  nav_responseStart :: number
  nav_secureConnectionStart :: number
  nav_startTime :: number
  nav_type :: string
  nav_unloadEventEnd :: number
  nav_unloadEventStart :: number
  nav_workerStart :: number
  nav_decodedBodySize :: "number option"
  nav_encodedBodySize :: "number option"
  nav_initiatorType :: "string option"
  nav_nextHopProtocol :: "string option"
  nav_redirectCount :: "number option"
  nav_transferSize :: "number option"

text \<open>
  \<^verbatim>\<open>PerformanceResourceTiming\<close>; the last two fields are read through a cast to
  \<^verbatim>\<open>any\<close> and may be absent.
\<close>

record resource_entry =
  res_connectEnd :: number
  res_connectStart :: number
  res_decodedBodySize :: number
  res_domainLookupEnd :: number
  res_domainLookupStart :: number
  res_duration :: number
  res_encodedBodySize :: number
  res_entryType :: string
  res_fetchStart :: number
  res_initiatorType :: string
  res_name :: string
  res_nextHopProtocol :: string
  res_redirectEnd :: number
  res_redirectStart :: number
  res_requestStart :: number
  res_responseEnd :: number
  res_responseStart :: number
  res_secureConnectionStart :: number
  res_startTime :: number
  res_transferSize :: number
  res_workerStart :: number
  res_firstInterimResponseStart :: "number option"
  res_renderBlockingStatus :: "string option"

text \<open>The \<^verbatim>\<open>attribution\<close> part of the two web-vitals reports.\<close>

record lcp_metric =
  lcpEntry :: "lcp_entry option"

record fcp_metric =
  fcpEntry :: "paint_entry option"
  navigationEntry :: "navigation_entry option"

subsection \<open>Spans\<close>

text \<open>
  An attribute object is the list of its keys and values in the order of the object
  literal.
\<close>

datatype attr_value = Num number | Str string | Undefined

type_synonym attributes = "(string \<times> attr_value) list"

text \<open>
  The calls that the instrumentation makes on a span: \<^verbatim>\<open>setAttributes(map)\<close>,
  \<^verbatim>\<open>end(time)\<close> and \<^verbatim>\<open>end()\<close>.
\<close>

datatype end_arg = At number | Now

datatype span_call = SetAttributes attributes | End end_arg

text \<open>
  A span is what it was started with (name, parent, attributes, start time) and the calls
  made on it since, oldest first.
\<close>

record span =
  spanName :: string
  spanParent :: "string option"
  spanAttributes :: attributes
  spanStart :: number
  spanCalls :: "span_call list"

text \<open>
  Modelled from the spec: \<^verbatim>\<open>startRootSpan\<close> and \<^verbatim>\<open>startNestedSpan\<close> of
  \<^verbatim>\<open>./generateTraces\<close> are not among the sources. Section 6 gives them as
  \<^verbatim>\<open>startRootSpan(name, attributes, startOffset) -> Span\<close> and
  \<^verbatim>\<open>startNestedSpan(name, parent, attributes, startOffset) -> Span\<close>, and section 3
  says that a span is identified by a name, a start time, a set of attributes and an end
  time, and that nested spans are children of the root.
\<close>

definition startRootSpan :: "string \<Rightarrow> attributes \<Rightarrow> number \<Rightarrow> span" where
  "startRootSpan nm attrs start =
     \<lparr>spanName = nm, spanParent = None, spanAttributes = attrs, spanStart = start,
      spanCalls = []\<rparr>"

definition startNestedSpan :: "string \<Rightarrow> span \<Rightarrow> attributes \<Rightarrow> number \<Rightarrow> span" where
  "startNestedSpan nm parent attrs start =
     \<lparr>spanName = nm, spanParent = Some (spanName parent), spanAttributes = attrs,
      spanStart = start, spanCalls = []\<rparr>"

definition callSpan :: "span_call \<Rightarrow> span \<Rightarrow> span" where
  "callSpan c sp = sp\<lparr>spanCalls := spanCalls sp @ [c]\<rparr>"

text \<open>
  Modelled from the spec: the span implementation of the tracer is not among the sources.
  The first \<^verbatim>\<open>end\<close> call on a span sets its end time. Section 3 calls a second
  \<^verbatim>\<open>end\<close> undefined and section 9 leaves open whether the tracer tolerates it, so
  what a further \<^verbatim>\<open>end\<close> does to the end time is the parameter \<open>again\<close>: it
  receives the end time already set and the argument of the new call.
\<close>

fun endTimeAfter ::
  "(end_arg \<Rightarrow> end_arg \<Rightarrow> end_arg) \<Rightarrow> end_arg option \<Rightarrow> span_call list \<Rightarrow> end_arg option"
where
  "endTimeAfter again cur [] = cur"
| "endTimeAfter again cur (SetAttributes a # cs) = endTimeAfter again cur cs"
| "endTimeAfter again cur (End t # cs) =
     endTimeAfter again (Some (case cur of None \<Rightarrow> t | Some old \<Rightarrow> again old t)) cs"

definition spanEndTime :: "(end_arg \<Rightarrow> end_arg \<Rightarrow> end_arg) \<Rightarrow> span \<Rightarrow> end_arg option" where
  "spanEndTime again sp = endTimeAfter again None (spanCalls sp)"

text \<open>
  Modelled from the spec: the span implementation of the tracer is not among the sources
  (the type \<^verbatim>\<open>Span\<close> of line 1 is the tracer library's). Section 4.1 gives the
  termination of the root span as idempotent and requires that ending a span that has
  already ended neither raises nor changes the span; the tracer library's span does this:
  \<^verbatim>\<open>end\<close> on an ended span returns without touching the end time. So for the
  program's span a further \<^verbatim>\<open>end\<close> keeps the end time already set.
\<close>

definition keepFirstEnd :: "end_arg \<Rightarrow> end_arg \<Rightarrow> end_arg" where
  "keepFirstEnd old new = old"

fun isSetAttributes :: "span_call \<Rightarrow> bool" where
  "isSetAttributes (SetAttributes a) = True"
| "isSetAttributes (End t) = False"

fun isEnd :: "span_call \<Rightarrow> bool" where
  "isEnd (SetAttributes a) = False"
| "isEnd (End t) = True"

subsection \<open>The instrumentation and its environment\<close>

datatype observer = Observing | Disconnected

datatype subscription = VisibilityChangeListener | LCPHandler | FCPHandler

text \<open>
  The first eight fields are the fields of the class (lines 13-27). The other four are the
  environment that the methods act on: the nested spans started so far with the calls made
  on them (oldest first), the handles of the pending browser timers whose callback is
  \<^verbatim>\<open>pollResourceTimingEntries\<close>, the last timer handle that the browser gave out, and
  the callbacks registered by \<^verbatim>\<open>enable\<close>.
\<close>

record instrumentation =
  resourceTimingObserver :: "observer option"
  rootSpan :: span
  ignoreResourceUrls :: "string list"
  pageLastHiddenAt :: number
  pageHiddenFor :: number
  wasNavigationEntryPushed :: bool
  resourceEntriesSet :: "string set"
  resourceEntryPollTimeout :: "nat option"
  nestedSpans :: "span list"
  pendingTimers :: "nat list"
  lastTimerId :: nat
  subscriptions :: "subscription list"

text \<open>The constructor (lines 29-37) with the field initialisers, in a fresh environment.\<close>

definition newPageLoadInstrumentation :: "string list \<Rightarrow> instrumentation" where
  "newPageLoadInstrumentation ignoreUrls =
     \<lparr>resourceTimingObserver = None,
      rootSpan = startRootSpan ''PAGE_LOAD'' [] 0,
      ignoreResourceUrls = ignoreUrls,
      pageLastHiddenAt = 0,
      pageHiddenFor = 0,
      wasNavigationEntryPushed = False,
      resourceEntriesSet = {},
      resourceEntryPollTimeout = None,
      nestedSpans = [],
      pendingTimers = [],
      lastTimerId = 0,
      subscriptions = []\<rparr>"

subsection \<open>Visibility (lines 63-73)\<close>

datatype visibility_state = Hidden | Visible

definition addVisibilityChangeListener :: "instrumentation \<Rightarrow> instrumentation" where
  "addVisibilityChangeListener s =
     s\<lparr>subscriptions := subscriptions s @ [VisibilityChangeListener]\<rparr>"

text \<open>
  The listener itself (lines 65-72), called with \<^verbatim>\<open>document.visibilityState\<close> and
  the value that \<^verbatim>\<open>performance.now()\<close> returns during the call.
\<close>

definition visibilityChange :: "visibility_state \<Rightarrow> number \<Rightarrow> instrumentation \<Rightarrow> instrumentation" where
  "visibilityChange visibilityState now s =
     (if visibilityState = Hidden then s\<lparr>pageLastHiddenAt := now\<rparr>
      else (let endTime = now in s\<lparr>pageHiddenFor := endTime - pageLastHiddenAt s\<rparr>))"

definition visibilityChanges ::
  "(visibility_state \<times> number) list \<Rightarrow> instrumentation \<Rightarrow> instrumentation" where
  "visibilityChanges evs s = foldl (\<lambda>s (v, now). visibilityChange v now s) s evs"

subsection \<open>Paint metrics (lines 75-102, 132-163)\<close>

definition pushPaintTimingToSpan :: "paint_entry \<Rightarrow> instrumentation \<Rightarrow> instrumentation" where
  "pushPaintTimingToSpan entry s =
     (let paintSpan = startNestedSpan (kebabToScreamingSnakeCase (paint_name entry))
                        (rootSpan s) [] 0
      in s\<lparr>nestedSpans := nestedSpans s @ [callSpan (End (At (paint_startTime entry))) paintSpan]\<rparr>)"

definition pushLcpTimingToSpan :: "lcp_entry \<Rightarrow> instrumentation \<Rightarrow> instrumentation" where
  "pushLcpTimingToSpan entry s =
     (let lcpSpan = startNestedSpan (kebabToScreamingSnakeCase (lcp_entryType entry))
                      (rootSpan s)
                      [(''url'', Str (lcp_url entry)),
                       (''renderTime'', Num (lcp_renderTime entry)),
                       (''element'', Str (getElementName (lcp_element entry) 0)),
                       (''entryType'', Str (lcp_entryType entry)),
                       (''loadTime'', Num (lcp_loadTime entry)),
                       (''pageHiddenFor'', Num (pageHiddenFor s))]
                      0
      in s\<lparr>nestedSpans := nestedSpans s @ [callSpan (End (At (lcp_startTime entry))) lcpSpan]\<rparr>)"

definition onLCPReport :: "lcp_metric \<Rightarrow> instrumentation \<Rightarrow> instrumentation" where
  "onLCPReport metric s =
     (case lcpEntry metric of
        Some entry \<Rightarrow> pushLcpTimingToSpan entry s
      | None \<Rightarrow> s)"

subsection \<open>Navigation timing (lines 165-234)\<close>

text \<open>\<^verbatim>\<open>x || d\<close> on an optional number and on an optional string.\<close>

definition orNumber :: "number option \<Rightarrow> number \<Rightarrow> number" where
  "orNumber x d = (case x of None \<Rightarrow> d | Some v \<Rightarrow> if v = 0 then d else v)"

definition orString :: "string option \<Rightarrow> string \<Rightarrow> string" where
  "orString x d = (case x of None \<Rightarrow> d | Some v \<Rightarrow> if v = [] then d else v)"

definition navigationAttributes :: "navigation_entry \<Rightarrow> attributes" where
  "navigationAttributes entry =
     [(''connectEnd'', Num (nav_connectEnd entry)),
      (''connectStart'', Num (nav_connectStart entry)),
      (''decodedBodySize'', Num (orNumber (nav_decodedBodySize entry) 0)),
      (''domComplete'', Num (nav_domComplete entry)),
      (''domContentLoadedEventEnd'', Num (nav_domContentLoadedEventEnd entry)),
      (''domContentLoadedEventStart'', Num (nav_domContentLoadedEventStart entry)),
      (''domInteractive'', Num (nav_domInteractive entry)),
      (''domainLookupEnd'', Num (nav_domainLookupEnd entry)),
      (''domainLookupStart'', Num (nav_domainLookupStart entry)),
      (''encodedBodySize'', Num (orNumber (nav_encodedBodySize entry) 0)),
      (''entryType'', Str (nav_entryType entry)),
      (''fetchStart'', Num (nav_fetchStart entry)),
      (''initiatorType'', Str (orString (nav_initiatorType entry) ''navigation'')),
      (''loadEventEnd'', Num (nav_loadEventEnd entry)),
      (''loadEventStart'', Num (nav_loadEventStart entry)),
      (''nextHopProtocol'', Str (orString (nav_nextHopProtocol entry) [])),
      (''redirectCount'', Num (orNumber (nav_redirectCount entry) 0)),
      (''redirectEnd'', Num (nav_redirectEnd entry)),
      (''redirectStart'', Num (nav_redirectStart entry)),
      (''requestStart'', Num (nav_requestStart entry)),
      (''responseEnd'', Num (nav_responseEnd entry)),
      (''responseStart'', Num (nav_responseStart entry)),
      (''secureConnectionStart'', Num (nav_secureConnectionStart entry)),
      (''navigationStartTime'', Num (nav_startTime entry)),
      (''transferSize'', Num (orNumber (nav_transferSize entry) 0)),
      (''navigationType'', Str (nav_type entry)),
      (''url'', Str (nav_name entry)),
      (''unloadEventEnd'', Num (nav_unloadEventEnd entry)),
      (''unloadEventStart'', Num (nav_unloadEventStart entry)),
      (''workerStart'', Num (nav_workerStart entry))]"

definition pushNavigationTimingToSpan :: "navigation_entry \<Rightarrow> instrumentation \<Rightarrow> instrumentation" where
  "pushNavigationTimingToSpan entry s =
     (let s1 = s\<lparr>rootSpan := callSpan (SetAttributes (navigationAttributes entry)) (rootSpan s)\<rparr>
      in s1\<lparr>rootSpan := callSpan (End (At (nav_domContentLoadedEventEnd entry))) (rootSpan s1)\<rparr>)"

text \<open>\<^verbatim>\<open>onFCPReport\<close> (lines 87-102).\<close>

definition onFCPReport :: "fcp_metric \<Rightarrow> instrumentation \<Rightarrow> instrumentation" where
  "onFCPReport metric s =
     (let s1 = (case navigationEntry metric of
                  Some nav \<Rightarrow>
                    if \<not> wasNavigationEntryPushed s
                    then (pushNavigationTimingToSpan nav s)\<lparr>wasNavigationEntryPushed := True\<rparr>
                    else s
                | None \<Rightarrow> s)
      in (case fcpEntry metric of
            Some entry \<Rightarrow> pushPaintTimingToSpan entry s1
          | None \<Rightarrow> s1))"

definition onFCPReports :: "fcp_metric list \<Rightarrow> instrumentation \<Rightarrow> instrumentation" where
  "onFCPReports metrics s = foldl (\<lambda>s metric. onFCPReport metric s) s metrics"

text \<open>The navigation entry of the first report that carries one.\<close>

fun firstNavigationEntry :: "fcp_metric list \<Rightarrow> navigation_entry option" where
  "firstNavigationEntry [] = None"
| "firstNavigationEntry (m # ms) =
     (case navigationEntry m of Some nav \<Rightarrow> Some nav | None \<Rightarrow> firstNavigationEntry ms)"

subsection \<open>Resource timings (lines 236-354)\<close>

text \<open>\<^verbatim>\<open>getResourcesToTrack\<close> (lines 253-259).\<close>

definition getResourcesToTrack :: "instrumentation \<Rightarrow> resource_entry list \<Rightarrow> resource_entry list" where
  "getResourcesToTrack s resources =
     filter (\<lambda>entry. \<not> list_ex (\<lambda>ignoreUrl. stringIncludes (res_name entry) ignoreUrl)
                             (ignoreResourceUrls s))
            resources"

definition resourceAttributes :: "resource_entry \<Rightarrow> attributes" where
  "resourceAttributes entry =
     [(''connectEnd'', Num (res_connectEnd entry)),
      (''connectStart'', Num (res_connectStart entry)),
      (''decodedBodySize'', Num (res_decodedBodySize entry)),
      (''domainLookupEnd'', Num (res_domainLookupEnd entry)),
      (''domainLookupStart'', Num (res_domainLookupStart entry)),
      (''encodedBodySize'', Num (res_encodedBodySize entry)),
      (''entryType'', Str (res_entryType entry)),
      (''fetchStart'', Num (res_fetchStart entry)),
      (''firstInterimResponseStart'',
         (case res_firstInterimResponseStart entry of None \<Rightarrow> Undefined | Some v \<Rightarrow> Num v)),
      (''initiatorType'', Str (res_initiatorType entry)),
      (''nextHopProtocol'', Str (res_nextHopProtocol entry)),
      (''redirectEnd'', Num (res_redirectEnd entry)),
      (''redirectStart'', Num (res_redirectStart entry)),
      (''requestStart'', Num (res_requestStart entry)),
      (''responseEnd'', Num (res_responseEnd entry)),
      (''responseStart'', Num (res_responseStart entry)),
      (''resourceDuration'', Num (res_duration entry)),
      (''secureConnectionStart'', Num (res_secureConnectionStart entry)),
      (''transferSize'', Num (res_transferSize entry)),
      (''url'', Str (res_name entry)),
      (''workerStart'', Num (res_workerStart entry)),
      (''renderBlockingStatus'',
         (case res_renderBlockingStatus entry of None \<Rightarrow> Undefined | Some v \<Rightarrow> Str v))]"

text \<open>\<^verbatim>\<open>pushResourceTimingToSpan\<close> (lines 262-321).\<close>

definition pushResourceTimingToSpan :: "resource_entry \<Rightarrow> instrumentation \<Rightarrow> instrumentation" where
  "pushResourceTimingToSpan entry s =
     (let resourceSpan = startNestedSpan (res_name entry) (rootSpan s)
                           (resourceAttributes entry) (res_startTime entry)
      in s\<lparr>nestedSpans := nestedSpans s @
              [callSpan (End (At (res_startTime entry + res_responseEnd entry))) resourceSpan]\<rparr>)"

text \<open>
  \<^verbatim>\<open>observeResourceTimings\<close> (lines 237-250) creates the observer and starts it; the
  callback given to the observer is \<open>resourceTimingObserverCallback\<close>, called by the
  browser with each batch of entries.
\<close>

definition observeResourceTimings :: "instrumentation \<Rightarrow> instrumentation" where
  "observeResourceTimings s = s\<lparr>resourceTimingObserver := Some Observing\<rparr>"

definition resourceTimingObserverCallback ::
  "resource_entry list \<Rightarrow> instrumentation \<Rightarrow> instrumentation" where
  "resourceTimingObserverCallback entries s =
     (let resources = getResourcesToTrack s entries
      in foldl (\<lambda>s entry. pushResourceTimingToSpan entry s) s resources)"

text \<open>
  \<^verbatim>\<open>getResourceEntryKey\<close> (lines 324-326). The template literal converts the start
  time to a string with JavaScript's number-to-string conversion, the parameter
  \<open>numberToString\<close>.
\<close>

definition getResourceEntryKey :: "(number \<Rightarrow> string) \<Rightarrow> resource_entry \<Rightarrow> string" where
  "getResourceEntryKey numberToString entry =
     res_name entry @ '':'' @ numberToString (res_startTime entry) @ '':'' @ res_entryType entry"

text \<open>
  The browser's timers. \<^verbatim>\<open>setTimeout\<close> returns a fresh positive handle and arms the
  timer; \<^verbatim>\<open>clearInterval\<close> and \<^verbatim>\<open>clearTimeout\<close> share one pool of handles, so
  \<^verbatim>\<open>clearInterval(h)\<close> cancels the pending timeout \<open>h\<close>.
\<close>

definition setTimeout :: "instrumentation \<Rightarrow> nat \<times> instrumentation" where
  "setTimeout s =
     (let h = Suc (lastTimerId s)
      in (h, s\<lparr>pendingTimers := pendingTimers s @ [h], lastTimerId := h\<rparr>))"

definition clearInterval :: "nat \<Rightarrow> instrumentation \<Rightarrow> instrumentation" where
  "clearInterval h s = s\<lparr>pendingTimers := removeAll h (pendingTimers s)\<rparr>"

text \<open>
  The value of \<^verbatim>\<open>this\<close> in a call of \<^verbatim>\<open>pollResourceTimingEntries\<close>.
  \<^verbatim>\<open>enable\<close> calls it as a method, with the instrumentation as \<^verbatim>\<open>this\<close>. Line 351
  hands the method to \<^verbatim>\<open>setTimeout\<close> without binding it, so the browser calls it
  with the global object as \<^verbatim>\<open>this\<close>.
\<close>

datatype this_value = ThisInstrumentation | ThisGlobal

datatype js_error = TypeError | ReferenceError

text \<open>The body of the \<^verbatim>\<open>forEach\<close> of lines 341-347.\<close>

definition pollEntry :: "(number \<Rightarrow> string) \<Rightarrow> instrumentation \<Rightarrow> resource_entry \<Rightarrow> instrumentation" where
  "pollEntry numberToString s entry =
     (let key = getResourceEntryKey numberToString entry
      in if key \<notin> resourceEntriesSet s
         then (let s1 = pushResourceTimingToSpan entry s
               in s1\<lparr>resourceEntriesSet := insert key (resourceEntriesSet s1)\<rparr>)
         else s)"

text \<open>
  \<^verbatim>\<open>pollResourceTimingEntries\<close> (lines 329-354); \<open>resources\<close> is what
  \<^verbatim>\<open>performance.getEntriesByType("resource")\<close> returns during the call. With the
  global object as \<^verbatim>\<open>this\<close>, \<^verbatim>\<open>this.resourceEntryPollTimeout\<close> is undefined, so
  nothing is cleared, and \<^verbatim>\<open>this.getResourcesToTrack\<close> is undefined, so calling it
  throws a TypeError before any span is made or any timer armed. A timer handle is truthy
  when it is not 0.
\<close>

definition pollResourceTimingEntries ::
  "(number \<Rightarrow> string) \<Rightarrow> this_value \<Rightarrow> resource_entry list \<Rightarrow> instrumentation
     \<Rightarrow> js_error + instrumentation" where
  "pollResourceTimingEntries numberToString this resources s =
     (case this of
        ThisGlobal \<Rightarrow> Inl TypeError
      | ThisInstrumentation \<Rightarrow>
          (let s1 = (case resourceEntryPollTimeout s of
                       Some h \<Rightarrow> if h \<noteq> 0 then clearInterval h s else s
                     | None \<Rightarrow> s);
               filteredResources = getResourcesToTrack s1 resources;
               s2 = foldl (pollEntry numberToString) s1 filteredResources;
               (h, s3) = setTimeout s2
           in Inr (s3\<lparr>resourceEntryPollTimeout := Some h\<rparr>)))"

text \<open>
  The browser fires the pending timer \<open>h\<close>: the timer is spent and its callback, the
  unbound \<^verbatim>\<open>pollResourceTimingEntries\<close>, runs with the global object as
  \<^verbatim>\<open>this\<close>. The result is the error that the callback threw, if any, and the state.
  A handle that is not pending (never armed, spent or cancelled) fires nothing.
\<close>

definition timerFires ::
  "(number \<Rightarrow> string) \<Rightarrow> nat \<Rightarrow> resource_entry list \<Rightarrow> instrumentation
     \<Rightarrow> js_error option \<times> instrumentation" where
  "timerFires numberToString h resources s =
     (if h \<in> set (pendingTimers s)
      then (let s1 = s\<lparr>pendingTimers := removeAll h (pendingTimers s)\<rparr>
            in (case pollResourceTimingEntries numberToString ThisGlobal resources s1 of
                  Inl e \<Rightarrow> (Some e, s1)
                | Inr s2 \<Rightarrow> (None, s2)))
      else (None, s))"

text \<open>
  A sequence of poll cycles, each with its \<^verbatim>\<open>this\<close> and with the entries that the
  browser enumerates in that cycle. A cycle that throws leaves the state as it was.
\<close>

definition pollCycle ::
  "(number \<Rightarrow> string) \<Rightarrow> instrumentation \<Rightarrow> this_value \<times> resource_entry list \<Rightarrow> instrumentation" where
  "pollCycle numberToString s cycle =
     (case pollResourceTimingEntries numberToString (fst cycle) (snd cycle) s of
        Inl e \<Rightarrow> s
      | Inr s1 \<Rightarrow> s1)"

definition pollCycles ::
  "(number \<Rightarrow> string) \<Rightarrow> (this_value \<times> resource_entry list) list \<Rightarrow> instrumentation
     \<Rightarrow> instrumentation" where
  "pollCycles numberToString cycles s = foldl (pollCycle numberToString) s cycles"

text \<open>
  The identity key of a resource span, read back from the span: its name is the entry's
  name, its start time the entry's start time, and its \<^verbatim>\<open>entryType\<close> attribute the
  entry's type.
\<close>

definition spanEntryType :: "span \<Rightarrow> string option" where
  "spanEntryType sp =
     (case map_of (spanAttributes sp) ''entryType'' of Some (Str t) \<Rightarrow> Some t | _ \<Rightarrow> None)"

definition spansWithKey :: "string \<Rightarrow> number \<Rightarrow> string \<Rightarrow> span list \<Rightarrow> span list" where
  "spansWithKey nm start ty spans =
     filter (\<lambda>sp. spanName sp = nm \<and> spanStart sp = start \<and> spanEntryType sp = Some ty) spans"

subsection \<open>Life cycle (lines 45-61, 356-364)\<close>

text \<open>
  What the identifier \<^verbatim>\<open>PerformanceObserver\<close> evaluates to in line 55: a truthy
  constructor, a falsy value, or no binding at all, where reading it throws a
  ReferenceError.
\<close>

datatype performance_observer_global = ObserverAvailable | ObserverFalsy | ObserverUndeclared

definition enable ::
  "(number \<Rightarrow> string) \<Rightarrow> performance_observer_global \<Rightarrow> resource_entry list \<Rightarrow> instrumentation
     \<Rightarrow> js_error + instrumentation" where
  "enable numberToString po resources s =
     (let s1 = addVisibilityChangeListener s;
          s2 = s1\<lparr>subscriptions := subscriptions s1 @ [LCPHandler]\<rparr>;
          s3 = s2\<lparr>subscriptions := subscriptions s2 @ [FCPHandler]\<rparr>
      in (case po of
            ObserverUndeclared \<Rightarrow> Inl ReferenceError
          | ObserverAvailable \<Rightarrow> Inr (observeResourceTimings s3)
          | ObserverFalsy \<Rightarrow>
              pollResourceTimingEntries numberToString ThisInstrumentation resources s3))"

text \<open>\<^verbatim>\<open>disable\<close> (lines 356-364). The root span is an object, so line 361 holds.\<close>

definition disable :: "instrumentation \<Rightarrow> instrumentation" where
  "disable s =
     (let s1 = (case resourceTimingObserver s of
                  Some ob \<Rightarrow> s\<lparr>resourceTimingObserver := Some Disconnected\<rparr>
                | None \<Rightarrow> s)
      in s1\<lparr>rootSpan := callSpan (End Now) (rootSpan s1)\<rparr>)"

subsection \<open>The two paths that end the root span\<close>






subsection \<open>Reading the trace\<close>

text \<open>
  What a span shows in the trace: its name, its parent, its start time and its end time
  (for a tracer that treats repeated \<^verbatim>\<open>end\<close> calls as \<open>again\<close> says).
\<close>

definition spanView ::
  "(end_arg \<Rightarrow> end_arg \<Rightarrow> end_arg) \<Rightarrow> span \<Rightarrow> string \<times> string option \<times> number \<times> end_arg option" where
  "spanView again sp = (spanName sp, spanParent sp, spanStart sp, spanEndTime again sp)"

text \<open>A span of zero duration ends at the time at which it starts.\<close>

definition isZeroDuration :: "(end_arg \<Rightarrow> end_arg \<Rightarrow> end_arg) \<Rightarrow> span \<Rightarrow> bool" where
  "isZeroDuration again sp \<longleftrightarrow> spanEndTime again sp = Some (At (spanStart sp))"

text \<open>
  The identity key of a resource span as the string that \<^verbatim>\<open>getResourceEntryKey\<close>
  builds from the entry.
\<close>

definition resourceSpanKey :: "(number \<Rightarrow> string) \<Rightarrow> span \<Rightarrow> string" where
  "resourceSpanKey numberToString sp =
     spanName sp @ '':'' @ numberToString (spanStart sp) @ '':'' @
     (case spanEntryType sp of Some t \<Rightarrow> t | None \<Rightarrow> [])"

text \<open>
  The entries of a list whose key is not in \<open>seen\<close> and not the key of an earlier entry of
  the list: the entries that a poll cycle is expected to turn into spans.
\<close>

fun freshEntries :: "(number \<Rightarrow> string) \<Rightarrow> string set \<Rightarrow> resource_entry list \<Rightarrow> resource_entry list" where
  "freshEntries numberToString seen [] = []"
| "freshEntries numberToString seen (e # es) =
     (if getResourceEntryKey numberToString e \<in> seen
      then freshEntries numberToString seen es
      else e # freshEntries numberToString (insert (getResourceEntryKey numberToString e) seen) es)"

text \<open>
  What the trace is expected to show for a resource entry under a given root span: the
  span is named after the URL, is a child of the root, starts at the entry's start time and
  ends at start time plus \<^verbatim>\<open>responseEnd\<close>.
\<close>

definition resourceSpanView ::
  "span \<Rightarrow> resource_entry \<Rightarrow> string \<times> string option \<times> number \<times> end_arg option" where
  "resourceSpanView parent e =
     (res_name e, Some (spanName parent), res_startTime e,
      Some (At (res_startTime e + res_responseEnd e)))"

subsection \<open>Example entries\<close>

definition exampleResource :: "string \<Rightarrow> number \<Rightarrow> number \<Rightarrow> resource_entry" where
  "exampleResource url start responseEnd =
     \<lparr>res_connectEnd = 0, res_connectStart = 0, res_decodedBodySize = 0,
      res_domainLookupEnd = 0, res_domainLookupStart = 0, res_duration = 0,
      res_encodedBodySize = 0, res_entryType = ''resource'', res_fetchStart = 0,
      res_initiatorType = ''script'', res_name = url, res_nextHopProtocol = ''h2'',
      res_redirectEnd = 0, res_redirectStart = 0, res_requestStart = 0,
      res_responseEnd = responseEnd, res_responseStart = 0, res_secureConnectionStart = 0,
      res_startTime = start, res_transferSize = 0, res_workerStart = 0,
      res_firstInterimResponseStart = None, res_renderBlockingStatus = None\<rparr>"

definition exampleNavigation :: "number \<Rightarrow> navigation_entry" where
  "exampleNavigation domContentLoadedEventEnd =
     \<lparr>nav_connectEnd = 0, nav_connectStart = 0, nav_domainLookupEnd = 0,
      nav_domainLookupStart = 0, nav_domComplete = 0,
      nav_domContentLoadedEventEnd = domContentLoadedEventEnd,
      nav_domContentLoadedEventStart = 0, nav_domInteractive = 0,
      nav_entryType = ''navigation'', nav_fetchStart = 0, nav_loadEventEnd = 0,
      nav_loadEventStart = 0, nav_name = ''https://x/'', nav_redirectEnd = 0,
      nav_redirectStart = 0, nav_requestStart = 0, nav_responseEnd = 0,
      nav_responseStart = 0, nav_secureConnectionStart = 0, nav_startTime = 0,
      nav_type = ''navigate'', nav_unloadEventEnd = 0, nav_unloadEventStart = 0,
      nav_workerStart = 0, nav_decodedBodySize = None, nav_encodedBodySize = None,
      nav_initiatorType = None, nav_nextHopProtocol = None, nav_redirectCount = None,
      nav_transferSize = None\<rparr>"

definition examplePaint :: "number \<Rightarrow> paint_entry" where
  "examplePaint start =
     \<lparr>paint_name = ''first-contentful-paint'', paint_entryType = ''paint'',
      paint_startTime = start, paint_duration = 0\<rparr>"

definition exampleLcp :: "number \<Rightarrow> lcp_entry" where
  "exampleLcp start =
     \<lparr>lcp_element = None, lcp_entryType = ''largest-contentful-paint'', lcp_loadTime = 0,
      lcp_renderTime = start, lcp_startTime = start, lcp_url = []\<rparr>"

section \<open>Properties\<close>

subsection \<open>Strings\<close>

lemma toUpperCaseChar_cases:
  "(c \<notin> set lowerLetters \<and> toUpperCaseChar c = c) \<or>
   (c \<in> set lowerLetters \<and> toUpperCaseChar c \<in> set upperLetters)"
proof (cases "map_of (zip lowerLetters upperLetters) c")
  case None
  have "length lowerLetters = length upperLetters"
    by (simp add: lowerLetters_def upperLetters_def)
  with None have "c \<notin> set lowerLetters"
    by (simp add: map_of_zip_is_None)
  with None show ?thesis by (simp add: toUpperCaseChar_def)
next
  case (Some u)
  then have "(c, u) \<in> set (zip lowerLetters upperLetters)" by (rule map_of_SomeD)
  then have "u \<in> set upperLetters" "c \<in> set lowerLetters"
    by (auto dest: set_zip_rightD set_zip_leftD)
  with Some show ?thesis by (simp add: toUpperCaseChar_def)
qed

lemma toUpperCaseChar_not_lower: "toUpperCaseChar c \<notin> set lowerLetters"
proof -
  have "set upperLetters \<inter> set lowerLetters = {}"
    by (simp add: lowerLetters_def upperLetters_def)
  with toUpperCaseChar_cases [of c] show ?thesis by auto
qed

lemma toUpperCaseChar_dash: "toUpperCaseChar c = CHR ''-'' \<longleftrightarrow> c = CHR ''-''"
proof -
  have "CHR ''-'' \<notin> set upperLetters" "CHR ''-'' \<notin> set lowerLetters"
    by (simp_all add: lowerLetters_def upperLetters_def)
  with toUpperCaseChar_cases [of c] toUpperCaseChar_cases [of "CHR ''-''"] show ?thesis by auto
qed

lemma kebab_no_dash: "CHR ''-'' \<notin> set (kebabToScreamingSnakeCase s)"
proof
  assume "CHR ''-'' \<in> set (kebabToScreamingSnakeCase s)"
  then obtain x where "CHR ''-'' = toUpperCaseChar (if x = CHR ''-'' then CHR ''_'' else x)"
    by (auto simp: kebabToScreamingSnakeCase_def toUpperCase_def replaceAllChar_def)
  then have "toUpperCaseChar (if x = CHR ''-'' then CHR ''_'' else x) = CHR ''-''"
    by simp
  then show False by (simp add: toUpperCaseChar_dash split: if_splits)
qed

lemma kebab_no_lower: "set (kebabToScreamingSnakeCase s) \<inter> set lowerLetters = {}"
  by (auto simp: kebabToScreamingSnakeCase_def toUpperCase_def toUpperCaseChar_not_lower)

lemma kebab_length: "length (kebabToScreamingSnakeCase s) = length s"
  by (simp add: kebabToScreamingSnakeCase_def toUpperCase_def replaceAllChar_def)

lemmas kebab_eval =
  kebabToScreamingSnakeCase_def toUpperCase_def replaceAllChar_def toUpperCaseChar_def
  lowerLetters_def upperLetters_def

lemma stringIncludes_iff_sublist: "stringIncludes s sub \<longleftrightarrow> sublist sub s"
  by (induction s) (simp_all add: sublist_Cons_right)

subsection \<open>Element names\<close>

lemma getElementName_chain:
  "getElementName (Some el) depth =
     concat (map (\<lambda>a. '' > '' @ elementLabel a) (rev (take (nat (4 - depth)) (ancestorChain el))))"
proof (induction el arbitrary: depth)
  case (Element t i c d p)
  show ?case
  proof (cases "depth > 3")
    case True
    then show ?thesis by simp
  next
    case False
    then have n: "nat (4 - depth) = Suc (nat (4 - (depth + 1)))" by simp
    show ?thesis
    proof (cases p)
      case None
      with False show ?thesis by (simp add: n del: getElementName.simps(2))
        (simp add: Let_def)
    next
      case (Some q)
      then have "q \<in> set_option p" by simp
      from Element.IH [OF this, of "depth + 1"] Some False show ?thesis
        by (simp add: n Let_def)
    qed
  qed
qed

lemma getElementName_cut: "depth > 3 \<Longrightarrow> getElementName e depth = []"
  by (cases e) simp_all

lemma getElementName_prefix:
  "depth \<le> 3 \<Longrightarrow> prefix '' > '' (getElementName (Some el) depth)"
proof (induction el arbitrary: depth)
  case (Element t i c d p)
  show ?case
  proof (cases "getElementName p (depth + 1) = []")
    case True
    with Element.prems show ?thesis by simp
  next
    case False
    then obtain q where q: "p = Some q" by (cases p) auto
    with False have "depth + 1 \<le> 3" by (auto split: if_splits)
    from Element.IH [of q "depth + 1"] q this
    have "prefix '' > '' (getElementName p (depth + 1))" by simp
    with Element.prems q show ?thesis by (simp add: Let_def prefix_prefix)
  qed
qed

lemma elementLabel_null:
  "dataTestid el = None \<Longrightarrow> suffix '':null'' (elementLabel el)"
  by (simp add: elementLabel_def templateNullable_def Let_def suffix_def)

lemma getElementName_suffix:
  "depth \<le> 3 \<Longrightarrow> suffix (elementLabel el) (getElementName (Some el) depth)"
  by (simp add: Let_def suffix_def)

text \<open>
  Claim C9. \<^verbatim>\<open>getElementName\<close> returns the empty string when the element is absent
  or the depth exceeds 3. For a present element the label is made of the labels of the
  first \<open>4 - depth\<close> elements of its ancestor chain and of no other element, so a call at
  depth 0 has contributions from at most four elements, whatever the nesting. The function
  is total: its termination was proved from the depth bound.
\<close>

theorem getElementName_depth_bounded:
  "getElementName None depth = []
   \<and> (depth > 3 \<longrightarrow> getElementName e depth = [])
   \<and> getElementName (Some el) depth =
       concat (map (\<lambda>a. '' > '' @ elementLabel a)
                   (rev (take (nat (4 - depth)) (ancestorChain el))))
   \<and> getElementName (Some el) 0 =
       concat (map (\<lambda>a. '' > '' @ elementLabel a) (rev (take 4 (ancestorChain el))))
   \<and> length (take 4 (ancestorChain el)) \<le> 4"
  using getElementName_chain [of el depth] getElementName_chain [of el 0]
  by (simp add: getElementName_cut)

text \<open>
  An element with ten ancestors above it: at depth 4 the result is empty, and at depth 0
  the label names the element and its three nearest ancestors only.
\<close>

theorem getElementName_depth_bounded_witness:
  "(4::int) > 3
   \<and> getElementName (Some (nestedElement 10)) 4 = []
   \<and> length (ancestorChain (nestedElement 10)) = 11
   \<and> getElementName (Some (nestedElement 10)) 0
       = '' > Exxxxxxx:null > Exxxxxxxx:null > Exxxxxxxxx:null > Exxxxxxxxxx:null''"
  using getElementName_depth_bounded [of 4 "Some (nestedElement 10)" "nestedElement 10"]
  by (simp add: eval_nat_numeral elementLabel_def templateNullable_def)

text \<open>
  Claim C10. For a present element at a depth of at most 3 the label begins with the
  separator \<^verbatim>\<open>" > "\<close>; when the parent's label is empty, the label is the separator
  followed by the element's own label; and when the element has no
  \<^verbatim>\<open>data-testid\<close> attribute the label ends with the text \<^verbatim>\<open>:null\<close>.
\<close>

theorem getElementName_separator_and_null:
  assumes "depth \<le> 3"
  shows "prefix '' > '' (getElementName (Some el) depth)
   \<and> (getElementName (parentElement el) (depth + 1) = [] \<longrightarrow>
        getElementName (Some el) depth = '' > '' @ elementLabel el)
   \<and> (dataTestid el = None \<longrightarrow>
        suffix '':null'' (elementLabel el)
        \<and> suffix '':null'' (getElementName (Some el) depth))"
proof (intro conjI impI)
  show "prefix '' > '' (getElementName (Some el) depth)"
    using assms by (rule getElementName_prefix)
next
  assume "getElementName (parentElement el) (depth + 1) = []"
  with assms show "getElementName (Some el) depth = '' > '' @ elementLabel el"
    by (simp add: Let_def)
next
  assume "dataTestid el = None"
  then show "suffix '':null'' (elementLabel el)"
    by (rule elementLabel_null)
next
  assume "dataTestid el = None"
  then have "suffix '':null'' (elementLabel el)"
    by (rule elementLabel_null)
  then show "suffix '':null'' (getElementName (Some el) depth)"
    using getElementName_suffix [OF assms, of el] by (rule suffix_order.trans)
qed

text \<open>A \<^verbatim>\<open>DIV\<close> without parent, id, class and test id is labelled \<^verbatim>\<open>" > DIV:null"\<close>.\<close>

theorem getElementName_separator_and_null_witness:
  "(0::int) \<le> 3
   \<and> getElementName (parentElement (Element ''DIV'' [] [] None None)) (0 + 1) = []
   \<and> dataTestid (Element ''DIV'' [] [] None None) = None
   \<and> getElementName (Some (Element ''DIV'' [] [] None None)) 0 = '' > DIV:null''"
  using getElementName_separator_and_null [of 0 "Element ''DIV'' [] [] None None"]
  by (simp add: elementLabel_def templateNullable_def)

subsection \<open>Visibility\<close>

lemma visibilityChanges_append:
  "visibilityChanges (evs @ evs') s = visibilityChanges evs' (visibilityChanges evs s)"
  by (simp add: visibilityChanges_def)

lemma visibilityChanges_Nil: "visibilityChanges [] s = s"
  by (simp add: visibilityChanges_def)

lemma visibilityChanges_Cons:
  "visibilityChanges ((v, now) # evs) s = visibilityChanges evs (visibilityChange v now s)"
  by (simp add: visibilityChanges_def)

text \<open>
  Claim C5. A change to hidden stores the current time in \<^verbatim>\<open>pageLastHiddenAt\<close> and
  leaves \<^verbatim>\<open>pageHiddenFor\<close> as it is; a change to visible stores
  \<open>now - pageLastHiddenAt\<close> in \<^verbatim>\<open>pageHiddenFor\<close>. After any sequence of changes that
  ends with hidden at \<open>t1\<close> and visible at \<open>t2\<close> the stored value is \<open>t2 - t1\<close>; it stays so
  while the page is hidden again, and the next hide and show at \<open>t3\<close> and \<open>t4\<close> replace
  it by \<open>t4 - t3\<close>, with nothing of the earlier interval added. Hidden at 100 and visible
  at 150 gives 50.
\<close>

theorem pageHiddenFor_last_interval:
  "pageLastHiddenAt (visibilityChange Hidden t s) = t
   \<and> pageHiddenFor (visibilityChange Hidden t s) = pageHiddenFor s
   \<and> pageHiddenFor (visibilityChange Visible t s) = t - pageLastHiddenAt s
   \<and> pageHiddenFor (visibilityChanges (evs @ [(Hidden, t1), (Visible, t2)]) s) = t2 - t1
   \<and> pageHiddenFor (visibilityChanges (evs @ [(Hidden, t1), (Visible, t2), (Hidden, t3)]) s)
       = t2 - t1
   \<and> pageHiddenFor (visibilityChanges
        (evs @ [(Hidden, t1), (Visible, t2), (Hidden, t3), (Visible, t4)]) s) = t4 - t3
   \<and> pageHiddenFor (visibilityChanges [(Hidden, 100), (Visible, 150)]
        (newPageLoadInstrumentation ignoreUrls)) = 50"
  by (simp add: visibilityChanges_append visibilityChanges_Cons visibilityChanges_Nil
      visibilityChange_def)

subsection \<open>Spans, paint metrics and navigation timing\<close>


lemma endTimeAfter_snoc_SetAttributes:
  "endTimeAfter again cur (cs @ [SetAttributes a]) = endTimeAfter again cur cs"
proof (induction cs arbitrary: cur)
  case Nil
  show ?case by simp
next
  case (Cons c cs)
  then show ?case by (cases c) simp_all
qed

lemma spanView_started_ended:
  "spanView again (callSpan (End t) (startNestedSpan nm parent attrs start)) =
     (nm, Some (spanName parent), start, Some t)"
  by (simp add: spanView_def spanEndTime_def callSpan_def startNestedSpan_def)

lemma nestedSpans_pushPaint:
  "nestedSpans (pushPaintTimingToSpan e s) =
     nestedSpans s @ [callSpan (End (At (paint_startTime e)))
        (startNestedSpan (kebabToScreamingSnakeCase (paint_name e)) (rootSpan s) [] 0)]"
  by (simp add: pushPaintTimingToSpan_def)

lemma rootSpan_pushPaint: "rootSpan (pushPaintTimingToSpan e s) = rootSpan s"
  by (simp add: pushPaintTimingToSpan_def)

lemma flag_pushPaint:
  "wasNavigationEntryPushed (pushPaintTimingToSpan e s) = wasNavigationEntryPushed s"
  by (simp add: pushPaintTimingToSpan_def)

lemma nestedSpans_pushNavigation:
  "nestedSpans (pushNavigationTimingToSpan n s) = nestedSpans s"
  by (simp add: pushNavigationTimingToSpan_def)

lemma spanCalls_pushNavigation:
  "spanCalls (rootSpan (pushNavigationTimingToSpan n s)) =
     spanCalls (rootSpan s) @
       [SetAttributes (navigationAttributes n), End (At (nav_domContentLoadedEventEnd n))]"
  by (simp add: pushNavigationTimingToSpan_def callSpan_def)

lemma spanCalls_onFCPReport:
  "spanCalls (rootSpan (onFCPReport m s)) =
     spanCalls (rootSpan s) @
       (case navigationEntry m of
          None \<Rightarrow> []
        | Some n \<Rightarrow> if wasNavigationEntryPushed s then []
                    else [SetAttributes (navigationAttributes n),
                          End (At (nav_domContentLoadedEventEnd n))])"
  by (simp add: onFCPReport_def rootSpan_pushPaint spanCalls_pushNavigation
      split: option.split)

lemma flag_onFCPReport:
  "wasNavigationEntryPushed (onFCPReport m s) =
     (wasNavigationEntryPushed s \<or> navigationEntry m \<noteq> None)"
  by (auto simp: onFCPReport_def flag_pushPaint split: option.split)

lemma onFCPReports_Nil: "onFCPReports [] s = s"
  by (simp add: onFCPReports_def)

lemma onFCPReports_Cons: "onFCPReports (m # ms) s = onFCPReports ms (onFCPReport m s)"
  by (simp add: onFCPReports_def)

lemma spanCalls_onFCPReports_pushed:
  "wasNavigationEntryPushed s \<Longrightarrow>
     spanCalls (rootSpan (onFCPReports ms s)) = spanCalls (rootSpan s)"
proof (induction ms arbitrary: s)
  case Nil
  show ?case by (simp add: onFCPReports_Nil)
next
  case (Cons m ms)
  have "wasNavigationEntryPushed (onFCPReport m s)"
    using Cons.prems by (simp add: flag_onFCPReport)
  from Cons.IH [OF this] Cons.prems show ?case
    by (simp add: onFCPReports_Cons spanCalls_onFCPReport split: option.split)
qed

lemma spanCalls_onFCPReports:
  "\<not> wasNavigationEntryPushed s \<Longrightarrow>
     spanCalls (rootSpan (onFCPReports ms s)) =
       spanCalls (rootSpan s) @
         (case firstNavigationEntry ms of
            None \<Rightarrow> []
          | Some n \<Rightarrow> [SetAttributes (navigationAttributes n),
                       End (At (nav_domContentLoadedEventEnd n))])"
proof (induction ms arbitrary: s)
  case Nil
  show ?case by (simp add: onFCPReports_Nil)
next
  case (Cons m ms)
  show ?case
  proof (cases "navigationEntry m")
    case None
    then have "\<not> wasNavigationEntryPushed (onFCPReport m s)"
      using Cons.prems by (simp add: flag_onFCPReport)
    from Cons.IH [OF this] None show ?thesis
      by (simp add: onFCPReports_Cons spanCalls_onFCPReport)
  next
    case (Some n)
    then have "wasNavigationEntryPushed (onFCPReport m s)"
      by (simp add: flag_onFCPReport)
    from spanCalls_onFCPReports_pushed [OF this, of ms] Some Cons.prems show ?thesis
      by (simp add: onFCPReports_Cons spanCalls_onFCPReport)
  qed
qed

lemma new_flag: "\<not> wasNavigationEntryPushed (newPageLoadInstrumentation ig)"
  by (simp add: newPageLoadInstrumentation_def)

lemma new_rootSpan: "rootSpan (newPageLoadInstrumentation ig) = startRootSpan ''PAGE_LOAD'' [] 0"
  by (simp add: newPageLoadInstrumentation_def)

text \<open>
  Claim C1. For every sequence of first-paint reports given to \<^verbatim>\<open>onFCPReport\<close> on a
  new instrumentation, the calls made on the root span are none when no report carries a
  navigation entry, and otherwise exactly one \<^verbatim>\<open>setAttributes\<close> with the navigation
  attributes of the first report that carries an entry, followed by one \<^verbatim>\<open>end\<close> at
  that entry's \<^verbatim>\<open>domContentLoadedEventEnd\<close>. So the effect occurs at most once, and
  once the flag is set a report makes no call on the root span.
\<close>

theorem navigation_timing_once:
  "spanCalls (rootSpan (onFCPReports metrics (newPageLoadInstrumentation ignoreUrls))) =
     (case firstNavigationEntry metrics of
        None \<Rightarrow> []
      | Some nav \<Rightarrow> [SetAttributes (navigationAttributes nav),
                     End (At (nav_domContentLoadedEventEnd nav))])
   \<and> length (filter isSetAttributes
        (spanCalls (rootSpan (onFCPReports metrics (newPageLoadInstrumentation ignoreUrls))))) \<le> 1
   \<and> length (filter isEnd
        (spanCalls (rootSpan (onFCPReports metrics (newPageLoadInstrumentation ignoreUrls))))) \<le> 1
   \<and> (wasNavigationEntryPushed s \<longrightarrow>
        spanCalls (rootSpan (onFCPReport metric s)) = spanCalls (rootSpan s))"
  using spanCalls_onFCPReports [OF new_flag, of metrics ignoreUrls]
  by (simp add: new_rootSpan startRootSpan_def spanCalls_onFCPReport
      split: option.split)

text \<open>
  Two reports that both carry a navigation entry: the second finds the flag set, and the
  root span has the attributes and the end time of the first.
\<close>

theorem navigation_timing_once_witness:
  "wasNavigationEntryPushed
     (onFCPReport \<lparr>fcpEntry = None, navigationEntry = Some (exampleNavigation 800)\<rparr>
        (newPageLoadInstrumentation []))
   \<and> spanCalls (rootSpan (onFCPReports
        [\<lparr>fcpEntry = None, navigationEntry = Some (exampleNavigation 800)\<rparr>,
         \<lparr>fcpEntry = Some (examplePaint 1200), navigationEntry = Some (exampleNavigation 900)\<rparr>]
        (newPageLoadInstrumentation []))) =
       [SetAttributes (navigationAttributes (exampleNavigation 800)), End (At 800)]"
  using navigation_timing_once
    [of "[\<lparr>fcpEntry = None, navigationEntry = Some (exampleNavigation 800)\<rparr>,
          \<lparr>fcpEntry = Some (examplePaint 1200), navigationEntry = Some (exampleNavigation 900)\<rparr>]"
        "[]"
        "onFCPReport \<lparr>fcpEntry = None, navigationEntry = Some (exampleNavigation 800)\<rparr>
           (newPageLoadInstrumentation [])"
        "\<lparr>fcpEntry = Some (examplePaint 1200), navigationEntry = Some (exampleNavigation 900)\<rparr>"]
  by (simp add: flag_onFCPReport exampleNavigation_def)

subsection \<open>Resource spans\<close>

lemma nestedSpans_pushResource:
  "nestedSpans (pushResourceTimingToSpan e s) =
     nestedSpans s @
       [callSpan (End (At (res_startTime e + res_responseEnd e)))
          (startNestedSpan (res_name e) (rootSpan s) (resourceAttributes e) (res_startTime e))]"
  by (simp add: pushResourceTimingToSpan_def)

lemma pushResource_other:
  "rootSpan (pushResourceTimingToSpan e s) = rootSpan s"
  "ignoreResourceUrls (pushResourceTimingToSpan e s) = ignoreResourceUrls s"
  "resourceEntriesSet (pushResourceTimingToSpan e s) = resourceEntriesSet s"
  by (simp_all add: pushResourceTimingToSpan_def)

lemma spanView_pushResource:
  "map (spanView again) (nestedSpans (pushResourceTimingToSpan e s)) =
     map (spanView again) (nestedSpans s) @ [resourceSpanView (rootSpan s) e]"
  by (simp add: nestedSpans_pushResource spanView_started_ended resourceSpanView_def)

lemma spanKey_pushResource:
  "map (resourceSpanKey f) (nestedSpans (pushResourceTimingToSpan e s)) =
     map (resourceSpanKey f) (nestedSpans s) @ [getResourceEntryKey f e]"
  by (simp add: nestedSpans_pushResource resourceSpanKey_def getResourceEntryKey_def
      spanEntryType_def callSpan_def startNestedSpan_def resourceAttributes_def)

lemma observer_fold:
  "rootSpan (foldl (\<lambda>s e. pushResourceTimingToSpan e s) s es) = rootSpan s
   \<and> map (spanView again) (nestedSpans (foldl (\<lambda>s e. pushResourceTimingToSpan e s) s es)) =
       map (spanView again) (nestedSpans s) @ map (resourceSpanView (rootSpan s)) es"
proof (induction es arbitrary: s)
  case Nil
  show ?case by simp
next
  case (Cons e es)
  from Cons.IH [of "pushResourceTimingToSpan e s"] show ?case
    by (simp add: pushResource_other spanView_pushResource)
qed

lemma pollEntry_other:
  "rootSpan (pollEntry f s e) = rootSpan s"
  "ignoreResourceUrls (pollEntry f s e) = ignoreResourceUrls s"
  "resourceEntriesSet (pollEntry f s e) = insert (getResourceEntryKey f e) (resourceEntriesSet s)"
  by (auto simp: pollEntry_def Let_def pushResource_other)

lemma pollEntry_seen:
  "getResourceEntryKey f e \<in> resourceEntriesSet s \<Longrightarrow> pollEntry f s e = s"
  by (simp add: pollEntry_def)

lemma pollEntry_new:
  "getResourceEntryKey f e \<notin> resourceEntriesSet s \<Longrightarrow>
     nestedSpans (pollEntry f s e) = nestedSpans (pushResourceTimingToSpan e s)"
  by (simp add: pollEntry_def Let_def)

lemma poll_fold:
  "rootSpan (foldl (pollEntry f) s es) = rootSpan s
   \<and> ignoreResourceUrls (foldl (pollEntry f) s es) = ignoreResourceUrls s
   \<and> resourceEntriesSet (foldl (pollEntry f) s es) =
       resourceEntriesSet s \<union> getResourceEntryKey f ` set es
   \<and> map (spanView again) (nestedSpans (foldl (pollEntry f) s es)) =
       map (spanView again) (nestedSpans s) @
       map (resourceSpanView (rootSpan s)) (freshEntries f (resourceEntriesSet s) es)
   \<and> map (resourceSpanKey f) (nestedSpans (foldl (pollEntry f) s es)) =
       map (resourceSpanKey f) (nestedSpans s) @
       map (getResourceEntryKey f) (freshEntries f (resourceEntriesSet s) es)"
proof (induction es arbitrary: s)
  case Nil
  show ?case by simp
next
  case (Cons e es)
  show ?case
  proof (cases "getResourceEntryKey f e \<in> resourceEntriesSet s")
    case True
    with Cons.IH [of s] show ?thesis
      by (simp add: pollEntry_seen insert_absorb)
  next
    case False
    with Cons.IH [of "pollEntry f s e"] show ?thesis
      by (simp add: pollEntry_other pollEntry_new spanView_pushResource spanKey_pushResource)
  qed
qed

lemma freshEntries_keys:
  "distinct (map (getResourceEntryKey f) (freshEntries f seen es))
   \<and> set (map (getResourceEntryKey f) (freshEntries f seen es)) \<inter> seen = {}
   \<and> set (map (getResourceEntryKey f) (freshEntries f seen es)) \<subseteq> getResourceEntryKey f ` set es"
proof (induction es arbitrary: seen)
  case Nil
  show ?case by simp
next
  case (Cons e es)
  from Cons.IH [of seen] Cons.IH [of "insert (getResourceEntryKey f e) seen"]
  show ?case by auto
qed

lemma freshEntries_all_seen:
  "getResourceEntryKey f ` set es \<subseteq> seen \<Longrightarrow> freshEntries f seen es = []"
  by (induction es) auto

lemma getResourcesToTrack_cong:
  "ignoreResourceUrls s' = ignoreResourceUrls s \<Longrightarrow>
     getResourcesToTrack s' es = getResourcesToTrack s es"
  by (simp add: getResourcesToTrack_def)

lemma poll_timeout_cleared:
  "rootSpan (case resourceEntryPollTimeout s of
               Some h \<Rightarrow> if h \<noteq> 0 then clearInterval h s else s | None \<Rightarrow> s) = rootSpan s"
  "ignoreResourceUrls (case resourceEntryPollTimeout s of
               Some h \<Rightarrow> if h \<noteq> 0 then clearInterval h s else s | None \<Rightarrow> s) = ignoreResourceUrls s"
  "resourceEntriesSet (case resourceEntryPollTimeout s of
               Some h \<Rightarrow> if h \<noteq> 0 then clearInterval h s else s | None \<Rightarrow> s) = resourceEntriesSet s"
  "nestedSpans (case resourceEntryPollTimeout s of
               Some h \<Rightarrow> if h \<noteq> 0 then clearInterval h s else s | None \<Rightarrow> s) = nestedSpans s"
  by (simp_all add: clearInterval_def split: option.split)

lemma pollCycle_global: "pollCycle f s (ThisGlobal, es) = s"
  by (simp add: pollCycle_def pollResourceTimingEntries_def)

lemma pollCycle_instrumentation:
  "rootSpan (pollCycle f s (ThisInstrumentation, es)) = rootSpan s
   \<and> ignoreResourceUrls (pollCycle f s (ThisInstrumentation, es)) = ignoreResourceUrls s
   \<and> resourceEntriesSet (pollCycle f s (ThisInstrumentation, es)) =
       resourceEntriesSet s \<union> getResourceEntryKey f ` set (getResourcesToTrack s es)
   \<and> map (spanView again) (nestedSpans (pollCycle f s (ThisInstrumentation, es))) =
       map (spanView again) (nestedSpans s) @
       map (resourceSpanView (rootSpan s))
           (freshEntries f (resourceEntriesSet s) (getResourcesToTrack s es))
   \<and> map (resourceSpanKey f) (nestedSpans (pollCycle f s (ThisInstrumentation, es))) =
       map (resourceSpanKey f) (nestedSpans s) @
       map (getResourceEntryKey f)
           (freshEntries f (resourceEntriesSet s) (getResourcesToTrack s es))"
proof -
  define s1 where "s1 = (case resourceEntryPollTimeout s of
               Some h \<Rightarrow> if h \<noteq> 0 then clearInterval h s else s | None \<Rightarrow> s)"
  have s1: "rootSpan s1 = rootSpan s" "ignoreResourceUrls s1 = ignoreResourceUrls s"
    "resourceEntriesSet s1 = resourceEntriesSet s" "nestedSpans s1 = nestedSpans s"
    unfolding s1_def by (rule poll_timeout_cleared)+
  have tr: "getResourcesToTrack s1 es = getResourcesToTrack s es"
    using s1(2) by (rule getResourcesToTrack_cong)
  define s2 where "s2 = foldl (pollEntry f) s1 (getResourcesToTrack s es)"
  have eq: "pollCycle f s (ThisInstrumentation, es) =
      s2\<lparr>pendingTimers := pendingTimers s2 @ [Suc (lastTimerId s2)],
         lastTimerId := Suc (lastTimerId s2),
         resourceEntryPollTimeout := Some (Suc (lastTimerId s2))\<rparr>"
    by (simp add: pollCycle_def pollResourceTimingEntries_def setTimeout_def Let_def
        s1_def [symmetric] tr s2_def [symmetric])
  from poll_fold [of f s1 "getResourcesToTrack s es" again] show ?thesis
    by (simp add: eq s2_def [symmetric] s1)
qed

lemma nestedSpans_pollCycle:
  "nestedSpans (pollCycle f s (ThisInstrumentation, es)) =
     nestedSpans (foldl (pollEntry f)
       (case resourceEntryPollTimeout s of
          Some h \<Rightarrow> if h \<noteq> 0 then clearInterval h s else s | None \<Rightarrow> s)
       (getResourcesToTrack s es))"
proof -
  define s1 where "s1 = (case resourceEntryPollTimeout s of
               Some h \<Rightarrow> if h \<noteq> 0 then clearInterval h s else s | None \<Rightarrow> s)"
  have "ignoreResourceUrls s1 = ignoreResourceUrls s"
    unfolding s1_def by (rule poll_timeout_cleared)
  then have tr: "getResourcesToTrack s1 es = getResourcesToTrack s es"
    by (rule getResourcesToTrack_cong)
  show ?thesis
    by (simp add: pollCycle_def pollResourceTimingEntries_def setTimeout_def Let_def
        s1_def [symmetric] tr)
qed

lemma foldl_pollEntry_seen:
  "getResourceEntryKey f ` set es \<subseteq> resourceEntriesSet s \<Longrightarrow> foldl (pollEntry f) s es = s"
  by (induction es) (simp_all add: pollEntry_seen)

lemma pollCycle_invariant:
  assumes "distinct (map (resourceSpanKey f) (nestedSpans s))
     \<and> set (map (resourceSpanKey f) (nestedSpans s)) \<subseteq> resourceEntriesSet s"
  shows "distinct (map (resourceSpanKey f) (nestedSpans (pollCycle f s c)))
     \<and> set (map (resourceSpanKey f) (nestedSpans (pollCycle f s c)))
         \<subseteq> resourceEntriesSet (pollCycle f s c)"
proof (cases c)
  case (Pair this es)
  show ?thesis
  proof (cases this)
    case ThisGlobal
    with Pair assms show ?thesis by (simp add: pollCycle_global)
  next
    case ThisInstrumentation
    let ?fresh = "freshEntries f (resourceEntriesSet s) (getResourcesToTrack s es)"
    from freshEntries_keys [of f "resourceEntriesSet s" "getResourcesToTrack s es"]
    have d: "distinct (map (getResourceEntryKey f) ?fresh)"
      and n: "set (map (getResourceEntryKey f) ?fresh) \<inter> resourceEntriesSet s = {}"
      and i: "set (map (getResourceEntryKey f) ?fresh)
               \<subseteq> getResourceEntryKey f ` set (getResourcesToTrack s es)"
      by blast+
    from assms n have "set (map (resourceSpanKey f) (nestedSpans s))
        \<inter> set (map (getResourceEntryKey f) ?fresh) = {}" by blast
    with assms d i pollCycle_instrumentation [of f s es keepFirstEnd] Pair ThisInstrumentation
    show ?thesis by (simp del: set_map) blast
  qed
qed

lemma pollCycles_invariant:
  "distinct (map (resourceSpanKey f) (nestedSpans s))
     \<and> set (map (resourceSpanKey f) (nestedSpans s)) \<subseteq> resourceEntriesSet s \<Longrightarrow>
   distinct (map (resourceSpanKey f) (nestedSpans (pollCycles f cycles s)))
     \<and> set (map (resourceSpanKey f) (nestedSpans (pollCycles f cycles s)))
         \<subseteq> resourceEntriesSet (pollCycles f cycles s)"
proof (induction cycles arbitrary: s)
  case Nil
  then show ?case by (simp add: pollCycles_def)
next
  case (Cons c cycles)
  from Cons.IH [OF pollCycle_invariant [OF Cons.prems, of c]] show ?case
    by (simp add: pollCycles_def)
qed

lemma distinct_filter_le_one:
  "distinct (map g xs) \<Longrightarrow> (\<And>x. P x \<Longrightarrow> g x = k) \<Longrightarrow> length (filter P xs) \<le> 1"
proof (induction xs)
  case Nil
  show ?case by simp
next
  case (Cons x xs)
  show ?case
  proof (cases "P x")
    case True
    then have "g x = k" by (rule Cons.prems(2))
    have "\<not> P y" if y: "y \<in> set xs" for y
    proof
      assume "P y"
      then have "g y = k" by (rule Cons.prems(2))
      with \<open>g x = k\<close> have "g x = g y" by simp
      then have "g x \<in> g ` set xs" using y by (rule image_eqI)
      with Cons.prems(1) show False by simp
    qed
    then have "filter P xs = []" by (simp add: filter_empty_conv)
    with True show ?thesis by simp
  next
    case False
    with Cons show ?thesis by simp
  qed
qed

lemma spansWithKey_le_one:
  assumes "distinct (map (resourceSpanKey f) spans)"
  shows "length (spansWithKey nm start ty spans) \<le> 1"
  unfolding spansWithKey_def
proof (rule distinct_filter_le_one [OF assms])
  fix sp
  assume "spanName sp = nm \<and> spanStart sp = start \<and> spanEntryType sp = Some ty"
  then show "resourceSpanKey f sp = nm @ '':'' @ f start @ '':'' @ ty"
    by (simp add: resourceSpanKey_def)
qed

lemma new_poll_fields:
  "nestedSpans (newPageLoadInstrumentation ig) = []"
  "resourceEntriesSet (newPageLoadInstrumentation ig) = {}"
  by (simp_all add: newPageLoadInstrumentation_def)

text \<open>
  Claim C2. After any sequence of poll cycles on a new instrumentation (each cycle with
  its own enumerated entries, overlapping or not, and whatever its \<^verbatim>\<open>this\<close>), at most
  one emitted span has a given name, start time and entry type, and the key strings of
  the emitted spans are pairwise different. An entry whose key is already in
  \<^verbatim>\<open>resourceEntriesSet\<close> changes nothing, and a cycle that enumerates the same entries
  as the cycle before it emits no span.
\<close>

theorem poll_dedup:
  "length (spansWithKey nm start ty
      (nestedSpans (pollCycles f cycles (newPageLoadInstrumentation ignoreUrls)))) \<le> 1
   \<and> distinct (map (resourceSpanKey f)
      (nestedSpans (pollCycles f cycles (newPageLoadInstrumentation ignoreUrls))))
   \<and> (getResourceEntryKey f e \<in> resourceEntriesSet s \<longrightarrow> pollEntry f s e = s)
   \<and> nestedSpans (pollCycles f [(ThisInstrumentation, es), (ThisInstrumentation, es)] s) =
       nestedSpans (pollCycles f [(ThisInstrumentation, es)] s)"
proof -
  have inv: "distinct (map (resourceSpanKey f)
      (nestedSpans (pollCycles f cycles (newPageLoadInstrumentation ignoreUrls))))"
    using pollCycles_invariant [of f "newPageLoadInstrumentation ignoreUrls" cycles]
    by (simp add: new_poll_fields)
  have twice: "nestedSpans (pollCycles f [(ThisInstrumentation, es), (ThisInstrumentation, es)] s) =
       nestedSpans (pollCycles f [(ThisInstrumentation, es)] s)"
  proof -
    let ?s' = "pollCycle f s (ThisInstrumentation, es)"
    let ?c = "case resourceEntryPollTimeout ?s' of
               Some h \<Rightarrow> if h \<noteq> 0 then clearInterval h ?s' else ?s' | None \<Rightarrow> ?s'"
    from pollCycle_instrumentation [of f s es keepFirstEnd]
    have ig: "ignoreResourceUrls ?s' = ignoreResourceUrls s"
      and seen: "getResourceEntryKey f ` set (getResourcesToTrack s es) \<subseteq> resourceEntriesSet ?s'"
      by auto
    have tr: "getResourcesToTrack ?s' es = getResourcesToTrack s es"
      using ig by (rule getResourcesToTrack_cong)
    have "getResourceEntryKey f ` set (getResourcesToTrack s es) \<subseteq> resourceEntriesSet ?c"
      using seen by (simp add: poll_timeout_cleared)
    then have "foldl (pollEntry f) ?c (getResourcesToTrack s es) = ?c"
      by (rule foldl_pollEntry_seen)
    then have "nestedSpans (pollCycle f ?s' (ThisInstrumentation, es)) = nestedSpans ?s'"
      by (simp add: nestedSpans_pollCycle tr poll_timeout_cleared)
    then show ?thesis by (simp add: pollCycles_def)
  qed
  from inv spansWithKey_le_one [OF inv] twice show ?thesis
    by (simp add: pollEntry_seen)
qed

text \<open>
  Two cycles that overlap in one entry: the entry's key is in the set after the first
  cycle, and the two cycles emit three spans, not four.
\<close>

theorem poll_dedup_witness:
  "getResourceEntryKey (\<lambda>t. if t = 10 then ''10'' else ''20'')
       (exampleResource ''https://x/b.js'' 20 5)
     \<in> resourceEntriesSet (pollCycles (\<lambda>t. if t = 10 then ''10'' else ''20'')
          [(ThisInstrumentation,
            [exampleResource ''https://x/a.js'' 10 5, exampleResource ''https://x/b.js'' 20 5])]
          (newPageLoadInstrumentation []))
   \<and> pollEntry (\<lambda>t. if t = 10 then ''10'' else ''20'')
        (pollCycles (\<lambda>t. if t = 10 then ''10'' else ''20'')
          [(ThisInstrumentation,
            [exampleResource ''https://x/a.js'' 10 5, exampleResource ''https://x/b.js'' 20 5])]
          (newPageLoadInstrumentation []))
        (exampleResource ''https://x/b.js'' 20 5) =
       pollCycles (\<lambda>t. if t = 10 then ''10'' else ''20'')
          [(ThisInstrumentation,
            [exampleResource ''https://x/a.js'' 10 5, exampleResource ''https://x/b.js'' 20 5])]
          (newPageLoadInstrumentation [])
   \<and> map spanName (nestedSpans (pollCycles (\<lambda>t. if t = 10 then ''10'' else ''20'')
          [(ThisInstrumentation,
            [exampleResource ''https://x/a.js'' 10 5, exampleResource ''https://x/b.js'' 20 5]),
           (ThisInstrumentation,
            [exampleResource ''https://x/b.js'' 20 5, exampleResource ''https://x/c.js'' 10 5])]
          (newPageLoadInstrumentation []))) =
       [''https://x/a.js'', ''https://x/b.js'', ''https://x/c.js'']"
  (is "?seen \<and> ?same \<and> ?names")
proof -
  note defs = pollCycles_def pollCycle_def pollResourceTimingEntries_def setTimeout_def
    clearInterval_def pollEntry_def getResourceEntryKey_def getResourcesToTrack_def
    pushResourceTimingToSpan_def callSpan_def startNestedSpan_def
    newPageLoadInstrumentation_def exampleResource_def Let_def
  have seen: ?seen by (simp add: defs)
  have names: ?names by (simp add: defs)
  have same: ?same
    by (rule poll_dedup [THEN conjunct2, THEN conjunct2, THEN conjunct1, THEN mp, OF seen])
  from seen same names show ?thesis by (intro conjI)
qed

lemma spanView_names: "map spanName spans = map fst (map (spanView again) spans)"
  by (simp add: spanView_def)

lemma observerCallback_view:
  "map (spanView again) (nestedSpans (resourceTimingObserverCallback es s)) =
     map (spanView again) (nestedSpans s) @
     map (resourceSpanView (rootSpan s)) (getResourcesToTrack s es)"
  using observer_fold [of s "getResourcesToTrack s es" again]
  by (simp add: resourceTimingObserverCallback_def)

lemma getResourcesToTrack_sublist:
  "getResourcesToTrack s es =
     filter (\<lambda>e. \<forall>u \<in> set (ignoreResourceUrls s). \<not> sublist u (res_name e)) es"
  by (simp add: getResourcesToTrack_def list_ex_iff stringIncludes_iff_sublist)

lemma freshEntries_subset: "set (freshEntries f seen es) \<subseteq> set es"
  by (induction es arbitrary: seen) auto

text \<open>
  Claim C6. \<^verbatim>\<open>pushResourceTimingToSpan\<close> adds one nested span to the trace: it is
  named after the entry's URL, its parent is the root span, it starts at the entry's
  \<^verbatim>\<open>startTime\<close> and it ends at \<^verbatim>\<open>startTime + responseEnd\<close>. The observer
  callback adds such a span for each entry that passes the ignore filter, and a poll cycle
  for each filtered entry whose key is new; neither adds any other span.
\<close>

theorem resource_span_shape:
  "map (spanView again) (nestedSpans (pushResourceTimingToSpan e s)) =
     map (spanView again) (nestedSpans s) @
     [(res_name e, Some (spanName (rootSpan s)), res_startTime e,
       Some (At (res_startTime e + res_responseEnd e)))]
   \<and> map (spanView again) (nestedSpans (resourceTimingObserverCallback es s)) =
     map (spanView again) (nestedSpans s) @
     map (\<lambda>e. (res_name e, Some (spanName (rootSpan s)), res_startTime e,
                Some (At (res_startTime e + res_responseEnd e))))
         (getResourcesToTrack s es)
   \<and> map (spanView again) (nestedSpans (pollCycle f s (ThisInstrumentation, es))) =
     map (spanView again) (nestedSpans s) @
     map (\<lambda>e. (res_name e, Some (spanName (rootSpan s)), res_startTime e,
                Some (At (res_startTime e + res_responseEnd e))))
         (freshEntries f (resourceEntriesSet s) (getResourcesToTrack s es))
   \<and> spanName (rootSpan (newPageLoadInstrumentation ignoreUrls)) = ''PAGE_LOAD''
   \<and> spanParent (rootSpan (newPageLoadInstrumentation ignoreUrls)) = None"
proof -
  have v: "resourceSpanView (rootSpan s) =
      (\<lambda>e. (res_name e, Some (spanName (rootSpan s)), res_startTime e,
                Some (At (res_startTime e + res_responseEnd e))))"
    by (rule ext) (simp add: resourceSpanView_def)
  from spanView_pushResource [of again e s] observerCallback_view [of again es s]
    pollCycle_instrumentation [of f s es again]
  show ?thesis
    by (simp add: v [symmetric] resourceSpanView_def new_rootSpan startRootSpan_def)
qed

text \<open>
  Claim C8. \<^verbatim>\<open>getResourcesToTrack\<close> keeps exactly the entries whose name contains
  none of the configured strings as a substring, in their order. Under both strategies
  the spans added are spans of entries that passed this filter: the observer callback
  adds one for each of them, and a poll cycle one for each of them whose key is new, so
  the filter comes before deduplication and span creation.
\<close>

theorem ignore_filtering:
  "getResourcesToTrack s es =
     filter (\<lambda>e. \<forall>u \<in> set (ignoreResourceUrls s). \<not> sublist u (res_name e)) es
   \<and> map spanName (nestedSpans (resourceTimingObserverCallback es s)) =
       map spanName (nestedSpans s) @ map res_name (getResourcesToTrack s es)
   \<and> map spanName (nestedSpans (pollCycle f s (ThisInstrumentation, es))) =
       map spanName (nestedSpans s) @
       map res_name (freshEntries f (resourceEntriesSet s) (getResourcesToTrack s es))
   \<and> set (freshEntries f (resourceEntriesSet s) (getResourcesToTrack s es))
       \<subseteq> set (getResourcesToTrack s es)"
proof -
  have n: "fst (resourceSpanView r x) = res_name x" for r x
    by (simp add: resourceSpanView_def)
  have o: "map spanName (nestedSpans (resourceTimingObserverCallback es s)) =
       map spanName (nestedSpans s) @ map res_name (getResourcesToTrack s es)"
    unfolding spanView_names [of _ keepFirstEnd] observerCallback_view
    by (simp add: n)
  have p: "map spanName (nestedSpans (pollCycle f s (ThisInstrumentation, es))) =
       map spanName (nestedSpans s) @
       map res_name (freshEntries f (resourceEntriesSet s) (getResourcesToTrack s es))"
    unfolding spanView_names [of _ keepFirstEnd]
    using pollCycle_instrumentation [of f s es keepFirstEnd]
    by (simp add: n)
  from o p show ?thesis
    by (simp add: getResourcesToTrack_sublist [symmetric] freshEntries_subset)
qed

text \<open>
  The ignore list \<^verbatim>\<open>["/api/"]\<close> with the resources
  \<^verbatim>\<open>https://x/api/foo\<close> and \<^verbatim>\<open>https://x/static/bar.js\<close>: only the second
  yields a span.
\<close>

theorem ignore_filtering_witness:
  "ignoreResourceUrls (newPageLoadInstrumentation [''/api/'']) = [''/api/'']
   \<and> \<not> sublist ''/api/'' (res_name (exampleResource ''https://x/static/bar.js'' 20 5))
   \<and> sublist ''/api/'' (res_name (exampleResource ''https://x/api/foo'' 10 5))
   \<and> getResourcesToTrack (newPageLoadInstrumentation [''/api/''])
        [exampleResource ''https://x/api/foo'' 10 5,
         exampleResource ''https://x/static/bar.js'' 20 5] =
       [exampleResource ''https://x/static/bar.js'' 20 5]
   \<and> map spanName (nestedSpans (resourceTimingObserverCallback
        [exampleResource ''https://x/api/foo'' 10 5,
         exampleResource ''https://x/static/bar.js'' 20 5]
        (newPageLoadInstrumentation [''/api/'']))) = [''https://x/static/bar.js'']"
  (is "?ig \<and> ?out \<and> ?inside \<and> ?kept \<and> ?names")
proof -
  have ig: ?ig
    by (simp add: newPageLoadInstrumentation_def)
  have nm: "res_name (exampleResource u a b) = u" for u a b
    by (simp add: exampleResource_def)
  have hyp: "?out \<and> ?inside"
    by (simp add: nm stringIncludes_iff_sublist [symmetric])
  have kept: ?kept
    by (simp add: getResourcesToTrack_def ig nm)
  from ignore_filtering [of "newPageLoadInstrumentation [''/api/'']"
      "[exampleResource ''https://x/api/foo'' 10 5,
        exampleResource ''https://x/static/bar.js'' 20 5]"]
  have ?names
    by (simp only: kept) (simp add: newPageLoadInstrumentation_def nm)
  with ig hyp kept show ?thesis by simp
qed

subsection \<open>Shutdown\<close>


lemma disable_timers:
  "pendingTimers (disable s) = pendingTimers s"
  "resourceEntryPollTimeout (disable s) = resourceEntryPollTimeout s"
  by (simp_all add: disable_def split: option.split)














lemma pollEntry_timers:
  "pendingTimers (pollEntry f s e) = pendingTimers s"
  "lastTimerId (pollEntry f s e) = lastTimerId s"
  by (simp_all add: pollEntry_def pushResourceTimingToSpan_def Let_def)

lemma foldl_pollEntry_timers:
  "pendingTimers (foldl (pollEntry f) s es) = pendingTimers s
   \<and> lastTimerId (foldl (pollEntry f) s es) = lastTimerId s"
  by (induction es arbitrary: s) (simp_all add: pollEntry_timers)

lemma enable_polling:
  "\<exists>s1. enable f ObserverFalsy es (newPageLoadInstrumentation ig) = Inr s1
     \<and> pendingTimers s1 = [1] \<and> resourceEntryPollTimeout s1 = Some 1
     \<and> resourceTimingObserver s1 = None"
proof -
  define s3 where "s3 = (newPageLoadInstrumentation ig)
     \<lparr>subscriptions := [VisibilityChangeListener, LCPHandler, FCPHandler]\<rparr>"
  have e: "enable f ObserverFalsy es (newPageLoadInstrumentation ig) =
      pollResourceTimingEntries f ThisInstrumentation es s3"
    by (simp add: enable_def addVisibilityChangeListener_def s3_def
        newPageLoadInstrumentation_def)
  have s3: "resourceEntryPollTimeout s3 = None" "pendingTimers s3 = []" "lastTimerId s3 = 0"
    "resourceTimingObserver s3 = None"
    by (simp_all add: s3_def newPageLoadInstrumentation_def)
  define s2 where "s2 = foldl (pollEntry f) s3 (getResourcesToTrack s3 es)"
  have s2: "pendingTimers s2 = []" "lastTimerId s2 = 0"
    using foldl_pollEntry_timers [of f s3 "getResourcesToTrack s3 es"]
    by (simp_all add: s2_def s3)
  have ob: "resourceTimingObserver (foldl (pollEntry f) s es') = resourceTimingObserver s" for s es'
    by (induction es' arbitrary: s)
      (simp_all add: pollEntry_def pushResourceTimingToSpan_def Let_def)
  have "resourceTimingObserver s2 = None"
    by (simp add: s2_def ob s3)
  then show ?thesis
    by (simp add: e pollResourceTimingEntries_def s3 setTimeout_def Let_def
        s2_def [symmetric] s2)
qed

text \<open>
  Claim C4 fails on the code. \<^verbatim>\<open>disable\<close> leaves the pending timers and the stored
  timer handle as they are. On an instrumentation enabled without a usable
  \<^verbatim>\<open>PerformanceObserver\<close>, the timer armed by the first poll is still pending after
  \<^verbatim>\<open>disable\<close>, and when the browser fires it the poll callback runs (and throws,
  since it was scheduled unbound).
\<close>

theorem disable_keeps_poll_timer:
  "pendingTimers (disable s) = pendingTimers s
   \<and> resourceEntryPollTimeout (disable s) = resourceEntryPollTimeout s
   \<and> (case enable f ObserverFalsy es (newPageLoadInstrumentation ignoreUrls) of
        Inl err \<Rightarrow> False
      | Inr s1 \<Rightarrow>
          pendingTimers s1 = [1]
          \<and> pendingTimers (disable s1) = [1]
          \<and> resourceEntryPollTimeout (disable s1) = Some 1
          \<and> fst (timerFires f 1 es' (disable s1)) = Some TypeError)"
proof -
  from enable_polling [of f es ignoreUrls] obtain s1 where
    s1: "enable f ObserverFalsy es (newPageLoadInstrumentation ignoreUrls) = Inr s1"
      "pendingTimers s1 = [1]" "resourceEntryPollTimeout s1 = Some 1"
    by blast
  have "fst (timerFires f 1 es' (disable s1)) = Some TypeError"
    by (simp add: timerFires_def disable_timers s1 pollResourceTimingEntries_def Let_def)
  with s1 show ?thesis by (simp add: disable_timers)
qed

subsection \<open>Paint spans\<close>

lemma spanName_pushNavigation:
  "spanName (rootSpan (pushNavigationTimingToSpan n s)) = spanName (rootSpan s)"
  by (simp add: pushNavigationTimingToSpan_def callSpan_def)

lemma onFCPReport_paint_view:
  "map (spanView again)
       (nestedSpans (onFCPReport \<lparr>fcpEntry = Some e, navigationEntry = nav\<rparr> s)) =
     map (spanView again) (nestedSpans s) @
     [(kebabToScreamingSnakeCase (paint_name e), Some (spanName (rootSpan s)), 0,
       Some (At (paint_startTime e)))]"
  by (simp add: onFCPReport_def nestedSpans_pushPaint spanView_started_ended
      nestedSpans_pushNavigation spanName_pushNavigation split: option.split)

lemma onLCPReport_view:
  "map (spanView again) (nestedSpans (onLCPReport \<lparr>lcpEntry = Some l\<rparr> s)) =
     map (spanView again) (nestedSpans s) @
     [(kebabToScreamingSnakeCase (lcp_entryType l), Some (spanName (rootSpan s)), 0,
       Some (At (lcp_startTime l)))]"
  by (simp add: onLCPReport_def pushLcpTimingToSpan_def spanView_started_ended)

lemma kebab_map:
  "kebabToScreamingSnakeCase str =
     map (\<lambda>c. toUpperCaseChar (if c = CHR ''-'' then CHR ''_'' else c)) str"
  by (simp add: kebabToScreamingSnakeCase_def toUpperCase_def replaceAllChar_def)

lemma kebab_examples:
  "kebabToScreamingSnakeCase ''largest-contentful-paint'' = ''LARGEST_CONTENTFUL_PAINT''"
  "kebabToScreamingSnakeCase ''first-contentful-paint'' = ''FIRST_CONTENTFUL_PAINT''"
  by (simp_all add: kebab_eval)

lemma isZeroDuration_view:
  "isZeroDuration again sp \<longleftrightarrow>
     snd (snd (snd (spanView again sp))) = Some (At (fst (snd (snd (spanView again sp)))))"
  by (simp add: isZeroDuration_def spanView_def)

lemma onFCPReport_zero_duration:
  "isZeroDuration again
     (last (nestedSpans (onFCPReport \<lparr>fcpEntry = Some e, navigationEntry = nav\<rparr> s))) =
   (paint_startTime e = 0)"
proof -
  let ?spans = "nestedSpans (onFCPReport \<lparr>fcpEntry = Some e, navigationEntry = nav\<rparr> s)"
  have ne: "?spans \<noteq> []"
    using onFCPReport_paint_view [of again e nav s] by auto
  have "spanView again (last ?spans) = last (map (spanView again) ?spans)"
    using ne by (simp add: last_map)
  then have "spanView again (last ?spans) =
      (kebabToScreamingSnakeCase (paint_name e), Some (spanName (rootSpan s)), 0,
       Some (At (paint_startTime e)))"
    by (simp only: onFCPReport_paint_view) simp
  then show ?thesis by (auto simp: isZeroDuration_view)
qed

lemma onLCPReport_zero_duration:
  "isZeroDuration again (last (nestedSpans (onLCPReport \<lparr>lcpEntry = Some l\<rparr> s))) =
   (lcp_startTime l = 0)"
proof -
  let ?spans = "nestedSpans (onLCPReport \<lparr>lcpEntry = Some l\<rparr> s)"
  have ne: "?spans \<noteq> []"
    using onLCPReport_view [of again l s] by auto
  have "spanView again (last ?spans) = last (map (spanView again) ?spans)"
    using ne by (simp add: last_map)
  then have "spanView again (last ?spans) =
      (kebabToScreamingSnakeCase (lcp_entryType l), Some (spanName (rootSpan s)), 0,
       Some (At (lcp_startTime l)))"
    by (simp only: onLCPReport_view) simp
  then show ?thesis by (auto simp: isZeroDuration_view)
qed

text \<open>
  Claim C7, as amended. A first-paint report with a paint entry adds one nested span named
  after the entry's \<^verbatim>\<open>name\<close> in upper snake case, and a content-paint report with an
  entry adds one named after the entry's \<^verbatim>\<open>entryType\<close> in upper snake case: every
  \<^verbatim>\<open>-\<close> becomes \<^verbatim>\<open>_\<close> and every letter a-z its capital, so
  \<^verbatim>\<open>largest-contentful-paint\<close> becomes \<^verbatim>\<open>LARGEST_CONTENTFUL_PAINT\<close>. The span
  is a child of the root span, is started with start time 0, and ends at the entry's
  \<^verbatim>\<open>startTime\<close>: it runs from 0 to the time of the paint, and has zero duration
  only for a paint at time 0.
\<close>

theorem paint_span_name_and_end:
  "map (spanView again)
       (nestedSpans (onFCPReport \<lparr>fcpEntry = Some e, navigationEntry = nav\<rparr> s)) =
     map (spanView again) (nestedSpans s) @
     [(kebabToScreamingSnakeCase (paint_name e), Some (spanName (rootSpan s)), 0,
       Some (At (paint_startTime e)))]
   \<and> map (spanView again) (nestedSpans (onLCPReport \<lparr>lcpEntry = Some l\<rparr> s)) =
     map (spanView again) (nestedSpans s) @
     [(kebabToScreamingSnakeCase (lcp_entryType l), Some (spanName (rootSpan s)), 0,
       Some (At (lcp_startTime l)))]
   \<and> isZeroDuration again
        (last (nestedSpans (onFCPReport \<lparr>fcpEntry = Some e, navigationEntry = nav\<rparr> s))) =
       (paint_startTime e = 0)
   \<and> isZeroDuration again (last (nestedSpans (onLCPReport \<lparr>lcpEntry = Some l\<rparr> s))) =
       (lcp_startTime l = 0)
   \<and> kebabToScreamingSnakeCase str =
       map (\<lambda>c. toUpperCaseChar (if c = CHR ''-'' then CHR ''_'' else c)) str
   \<and> CHR ''-'' \<notin> set (kebabToScreamingSnakeCase str)
   \<and> set (kebabToScreamingSnakeCase str) \<inter> set lowerLetters = {}
   \<and> kebabToScreamingSnakeCase ''largest-contentful-paint'' = ''LARGEST_CONTENTFUL_PAINT''
   \<and> kebabToScreamingSnakeCase ''first-contentful-paint'' = ''FIRST_CONTENTFUL_PAINT''"
  using onFCPReport_paint_view [of again e nav s] onLCPReport_view [of again l s]
    onFCPReport_zero_duration [of again e nav s] onLCPReport_zero_duration [of again l s]
    kebab_map [of str] kebab_no_dash [of str] kebab_no_lower [of str] kebab_examples
  by (intro conjI)

text \<open>
  The claim as stated calls the span a zero-duration marker. A first paint at 1200 and a
  content paint at 2500 give spans that start at 0 and end at 1200 and at 2500.
\<close>

theorem paint_span_zero_duration_counterexample:
  "map (spanView keepFirstEnd)
       (nestedSpans (onFCPReport \<lparr>fcpEntry = Some (examplePaint 1200), navigationEntry = None\<rparr>
          (newPageLoadInstrumentation []))) =
     [(''FIRST_CONTENTFUL_PAINT'', Some ''PAGE_LOAD'', 0, Some (At 1200))]
   \<and> map (spanView keepFirstEnd)
       (nestedSpans (onLCPReport \<lparr>lcpEntry = Some (exampleLcp 2500)\<rparr>
          (newPageLoadInstrumentation []))) =
     [(''LARGEST_CONTENTFUL_PAINT'', Some ''PAGE_LOAD'', 0, Some (At 2500))]
   \<and> \<not> isZeroDuration keepFirstEnd
        (last (nestedSpans (onFCPReport
           \<lparr>fcpEntry = Some (examplePaint 1200), navigationEntry = None\<rparr>
           (newPageLoadInstrumentation []))))
   \<and> \<not> isZeroDuration keepFirstEnd
        (last (nestedSpans (onLCPReport \<lparr>lcpEntry = Some (exampleLcp 2500)\<rparr>
           (newPageLoadInstrumentation []))))"
  by (simp add: onFCPReport_paint_view onLCPReport_view new_poll_fields new_rootSpan
      startRootSpan_def examplePaint_def exampleLcp_def kebab_examples
      onFCPReport_zero_duration onLCPReport_zero_duration)

end
